theory Spec2Isabelle
  imports Main "HOL-Library.State_Monad" "HOL-Library.Sublist"
begin

section \<open>Android environment requirements (src/common/AndroidEnvironmentSetup.ts)\<close>

text \<open>
  The file under verification declares six requirement classes and the class
  \<open>AndroidEnvironmentSetup\<close> whose constructor assembles them. Every requirement has a
  title, message templates read from a message catalog, and an \<open>async checkFunction\<close>
  that calls one capability of \<open>AndroidUtils\<close> and turns its result into a resolved or a
  rejected promise.

  \<open>AndroidUtils\<close>, \<open>PlatformConfig\<close>, \<open>Messages\<close> and Node's \<open>util.format\<close> are not part of
  the file: they are parameters of the model (the record \<open>env\<close> and the message catalog).
  As their use in the file says, the probes of \<open>AndroidUtils\<close> answer by their return value
  (a root or \<open>undefined\<close>, a promise that resolves or is rejected) and \<open>getMessage\<close>,
  \<open>util.format\<close> and \<open>convertToUnixPath\<close> return strings; none of them is taken to throw.
\<close>

subsection \<open>JavaScript values, promises and completions\<close>

text \<open>
  The only dynamically typed values the file touches are the rejection reasons handed to
  its \<open>.catch\<close> callbacks, of which it reads the properties \<open>status\<close> and \<open>message\<close>.
  A property is undefined, a number or a string.
\<close>

datatype js_val = JUndefined | JNum int | JStr string

text \<open>
  A rejection reason is \<open>null\<close>/\<open>undefined\<close> (reading a property of it throws a
  \<open>TypeError\<close>) or any other value, given by its \<open>status\<close> and \<open>message\<close> properties.
\<close>

datatype reason = Nullish | Thrown js_val js_val

text \<open>What a \<open>checkFunction\<close> can fail with: the \<open>SfdxError\<close> it builds, or a \<open>TypeError\<close>.\<close>

datatype failure = SfdxError string | TypeError

text \<open>A settled promise, and the completion of a synchronous call (return or throw).\<close>

datatype ('e, 'a) promise = Resolved 'a | Rejected 'e

datatype ('x, 'a) completion = Return 'a | Throw 'x

subsection \<open>Effects\<close>

text \<open>
  Every read of the message catalog, every call of a probe or getter of \<open>AndroidUtils\<close> and
  every call of \<open>PlatformConfig.androidConfig\<close> is recorded, in order, in a trace that is
  threaded through the computation. The two string functions \<open>util.format\<close> and
  \<open>AndroidUtils.convertToUnixPath\<close> are applied without a record.
\<close>

datatype event =
    GetMessage string
  | GetAndroidSdkRoot
  | AndroidSDKPrerequisitesCheck
  | FetchAndroidCmdLineToolsLocation
  | FetchAndroidSDKPlatformToolsLocation
  | FetchSupportedAndroidAPIPackage "string option"
  | FetchSupportedEmulatorImagePackage "string option"
  | GetAndroidPlatformTools
  | AndroidConfig

type_synonym 'a io = "(event list, 'a) state"

definition perform :: "event \<Rightarrow> 'a \<Rightarrow> 'a io" where
  "perform ev v = State (\<lambda>tr. (v, tr @ [ev]))"

text \<open>\<open>p.then(f)\<close>: \<open>f\<close> runs on the value of a resolved promise; a rejection passes through.\<close>

definition then_p :: "('e, 'a) promise \<Rightarrow> ('a \<Rightarrow> ('e, 'b) promise io) \<Rightarrow> ('e, 'b) promise io" where
  "then_p p f = (case p of Resolved v \<Rightarrow> f v | Rejected e \<Rightarrow> State_Monad.return (Rejected e))"

text \<open>
  \<open>p.catch(g)\<close>: \<open>g\<close> runs on the reason of a rejected promise; what it returns settles
  the result, and what it throws rejects it. A resolved promise passes through.
\<close>

definition catch_p ::
  "('e, 'a) promise \<Rightarrow> ('e \<Rightarrow> ('f, ('f, 'a) promise) completion io) \<Rightarrow> ('f, 'a) promise io" where
  "catch_p p g =
     (case p of
        Resolved v \<Rightarrow> State_Monad.return (Resolved v)
      | Rejected e \<Rightarrow> do {
          c \<leftarrow> g e;
          State_Monad.return (case c of Return q \<Rightarrow> q | Throw x \<Rightarrow> Rejected x)
        })"

text \<open>
  An \<open>async\<close> function: the call itself always returns a promise; the promise takes the
  state of the promise the body returns, and is rejected with what the body throws.
\<close>

definition async_function ::
  "('f, ('f, 'a) promise) completion io \<Rightarrow> ('f, ('f, 'a) promise) completion io" where
  "async_function body = do {
     c \<leftarrow> body;
     State_Monad.return (Return (case c of Return p \<Rightarrow> p | Throw x \<Rightarrow> Rejected x))
   }"

text \<open>Reading \<open>error.status\<close> and \<open>error.message\<close>.\<close>

fun get_status :: "reason \<Rightarrow> (failure, js_val) completion" where
  "get_status Nullish = Throw TypeError"
| "get_status (Thrown st msg) = Return st"

fun get_message :: "reason \<Rightarrow> (failure, js_val) completion" where
  "get_message Nullish = Throw TypeError"
| "get_message (Thrown st msg) = Return msg"

text \<open>\<open>Array.prototype.join\<close> on an array of strings.\<close>

fun join :: "string \<Rightarrow> string list \<Rightarrow> string" where
  "join sep [] = []"
| "join sep [x] = x"
| "join sep (x # y # ys) = x @ sep @ join sep (y # ys)"

subsection \<open>The capabilities the file calls\<close>

record sdk_root =
  rootSource :: string
  rootLocation :: string

record android_package =
  platformAPI :: string
  path :: string

record android_config =
  minSupportedRuntime :: string
  supportedImages :: "string list"

text \<open>
  The results of the calls into \<open>AndroidUtils\<close> and \<open>PlatformConfig\<close>, typed as the file uses
  them: \<open>getAndroidSdkRoot\<close> returns a root or \<open>undefined\<close>, the four \<open>fetch\<close> functions and
  \<open>androidSDKPrerequisitesCheck\<close> return promises. \<open>format\<close> is \<open>util.format\<close>.
\<close>

record env =
  getAndroidSdkRoot :: "sdk_root option"
  androidSDKPrerequisitesCheck :: "(reason, string) promise"
  fetchAndroidCmdLineToolsLocation :: "(reason, string) promise"
  fetchAndroidSDKPlatformToolsLocation :: "(reason, string) promise"
  fetchSupportedAndroidAPIPackage :: "string option \<Rightarrow> (reason, android_package) promise"
  fetchSupportedEmulatorImagePackage :: "string option \<Rightarrow> (reason, android_package) promise"
  getAndroidPlatformTools :: string
  convertToUnixPath :: "string \<Rightarrow> string"
  androidConfig :: android_config
  format :: "string \<Rightarrow> js_val list \<Rightarrow> string"

type_synonym messages = "string \<Rightarrow> string"

definition getMessage :: "messages \<Rightarrow> string \<Rightarrow> string io" where
  "getMessage ms key = perform (GetMessage key) (ms key)"

definition AndroidUtils_getAndroidSdkRoot :: "env \<Rightarrow> sdk_root option io" where
  "AndroidUtils_getAndroidSdkRoot e = perform GetAndroidSdkRoot (getAndroidSdkRoot e)"

definition AndroidUtils_androidSDKPrerequisitesCheck :: "env \<Rightarrow> (reason, string) promise io" where
  "AndroidUtils_androidSDKPrerequisitesCheck e =
     perform AndroidSDKPrerequisitesCheck (androidSDKPrerequisitesCheck e)"

definition AndroidUtils_fetchAndroidCmdLineToolsLocation :: "env \<Rightarrow> (reason, string) promise io" where
  "AndroidUtils_fetchAndroidCmdLineToolsLocation e =
     perform FetchAndroidCmdLineToolsLocation (fetchAndroidCmdLineToolsLocation e)"

definition AndroidUtils_fetchAndroidSDKPlatformToolsLocation :: "env \<Rightarrow> (reason, string) promise io" where
  "AndroidUtils_fetchAndroidSDKPlatformToolsLocation e =
     perform FetchAndroidSDKPlatformToolsLocation (fetchAndroidSDKPlatformToolsLocation e)"

definition AndroidUtils_fetchSupportedAndroidAPIPackage ::
  "env \<Rightarrow> string option \<Rightarrow> (reason, android_package) promise io" where
  "AndroidUtils_fetchSupportedAndroidAPIPackage e lvl =
     perform (FetchSupportedAndroidAPIPackage lvl) (fetchSupportedAndroidAPIPackage e lvl)"

definition AndroidUtils_fetchSupportedEmulatorImagePackage ::
  "env \<Rightarrow> string option \<Rightarrow> (reason, android_package) promise io" where
  "AndroidUtils_fetchSupportedEmulatorImagePackage e lvl =
     perform (FetchSupportedEmulatorImagePackage lvl) (fetchSupportedEmulatorImagePackage e lvl)"

definition AndroidUtils_getAndroidPlatformTools :: "env \<Rightarrow> string io" where
  "AndroidUtils_getAndroidPlatformTools e = perform GetAndroidPlatformTools (getAndroidPlatformTools e)"

definition PlatformConfig_androidConfig :: "env \<Rightarrow> android_config io" where
  "PlatformConfig_androidConfig e = perform AndroidConfig (androidConfig e)"

subsection \<open>The requirement classes\<close>

datatype logger = Logger string

record requirement_fields =
  title :: string
  fulfilledMessage :: string
  unfulfilledMessage :: string
  logger :: logger

record platform_tools_fields = requirement_fields +
  notFoundMessage :: string

record package_fields = requirement_fields +
  apiLevel :: "string option"

datatype requirement =
    AndroidSDKRootSetRequirement requirement_fields
  | Java8AvailableRequirement requirement_fields
  | AndroidSDKToolsInstalledRequirement requirement_fields
  | AndroidSDKPlatformToolsInstalledRequirement platform_tools_fields
  | PlatformAPIPackageRequirement package_fields
  | EmulatorImagesRequirement package_fields

type_synonym check_result = "(failure, (failure, string) promise) completion"

text \<open>The constructors: each reads its title and templates from the message catalog.\<close>

definition new_AndroidSDKRootSetRequirement :: "messages \<Rightarrow> logger \<Rightarrow> requirement io" where
  "new_AndroidSDKRootSetRequirement ms lg = do {
     t \<leftarrow> getMessage ms ''android:reqs:androidhome:title'';
     f \<leftarrow> getMessage ms ''android:reqs:androidhome:fulfilledMessage'';
     u \<leftarrow> getMessage ms ''android:reqs:androidhome:unfulfilledMessage'';
     State_Monad.return (AndroidSDKRootSetRequirement
       \<lparr>title = t, fulfilledMessage = f, unfulfilledMessage = u, logger = lg\<rparr>)
   }"

definition new_Java8AvailableRequirement :: "messages \<Rightarrow> logger \<Rightarrow> requirement io" where
  "new_Java8AvailableRequirement ms lg = do {
     t \<leftarrow> getMessage ms ''android:reqs:androidsdkprerequisitescheck:title'';
     f \<leftarrow> getMessage ms ''android:reqs:androidsdkprerequisitescheck:fulfilledMessage'';
     u \<leftarrow> getMessage ms ''android:reqs:androidsdkprerequisitescheck:unfulfilledMessage'';
     State_Monad.return (Java8AvailableRequirement
       \<lparr>title = t, fulfilledMessage = f, unfulfilledMessage = u, logger = lg\<rparr>)
   }"

definition new_AndroidSDKToolsInstalledRequirement :: "messages \<Rightarrow> logger \<Rightarrow> requirement io" where
  "new_AndroidSDKToolsInstalledRequirement ms lg = do {
     t \<leftarrow> getMessage ms ''android:reqs:cmdlinetools:title'';
     f \<leftarrow> getMessage ms ''android:reqs:cmdlinetools:fulfilledMessage'';
     u \<leftarrow> getMessage ms ''android:reqs:cmdlinetools:unfulfilledMessage'';
     State_Monad.return (AndroidSDKToolsInstalledRequirement
       \<lparr>title = t, fulfilledMessage = f, unfulfilledMessage = u, logger = lg\<rparr>)
   }"

definition new_AndroidSDKPlatformToolsInstalledRequirement ::
  "messages \<Rightarrow> logger \<Rightarrow> requirement io" where
  "new_AndroidSDKPlatformToolsInstalledRequirement ms lg = do {
     t \<leftarrow> getMessage ms ''android:reqs:platformtools:title'';
     f \<leftarrow> getMessage ms ''android:reqs:platformtools:fulfilledMessage'';
     u \<leftarrow> getMessage ms ''android:reqs:platformtools:unfulfilledMessage'';
     n \<leftarrow> getMessage ms ''android:reqs:platformtools:notFound'';
     State_Monad.return (AndroidSDKPlatformToolsInstalledRequirement
       \<lparr>title = t, fulfilledMessage = f, unfulfilledMessage = u, logger = lg,
        notFoundMessage = n\<rparr>)
   }"

definition new_PlatformAPIPackageRequirement ::
  "messages \<Rightarrow> logger \<Rightarrow> string option \<Rightarrow> requirement io" where
  "new_PlatformAPIPackageRequirement ms lg lvl = do {
     t \<leftarrow> getMessage ms ''android:reqs:platformapi:title'';
     f \<leftarrow> getMessage ms ''android:reqs:platformapi:fulfilledMessage'';
     u \<leftarrow> getMessage ms ''android:reqs:platformapi:unfulfilledMessage'';
     State_Monad.return (PlatformAPIPackageRequirement
       \<lparr>title = t, fulfilledMessage = f, unfulfilledMessage = u, logger = lg,
        apiLevel = lvl\<rparr>)
   }"

definition new_EmulatorImagesRequirement ::
  "messages \<Rightarrow> logger \<Rightarrow> string option \<Rightarrow> requirement io" where
  "new_EmulatorImagesRequirement ms lg lvl = do {
     t \<leftarrow> getMessage ms ''android:reqs:emulatorimages:title'';
     f \<leftarrow> getMessage ms ''android:reqs:emulatorimages:fulfilledMessage'';
     u \<leftarrow> getMessage ms ''android:reqs:emulatorimages:unfulfilledMessage'';
     State_Monad.return (EmulatorImagesRequirement
       \<lparr>title = t, fulfilledMessage = f, unfulfilledMessage = u, logger = lg,
        apiLevel = lvl\<rparr>)
   }"

text \<open>The six \<open>checkFunction\<close> methods.\<close>

definition AndroidSDKRootSetRequirement_checkFunction ::
  "env \<Rightarrow> requirement_fields \<Rightarrow> check_result io" where
  "AndroidSDKRootSetRequirement_checkFunction e this = async_function (do {
     root \<leftarrow> AndroidUtils_getAndroidSdkRoot e;
     case root of
       Some r \<Rightarrow>
         State_Monad.return (Return (Resolved
           (convertToUnixPath e
             (format e (fulfilledMessage this) [JStr (rootSource r), JStr (rootLocation r)]))))
     | None \<Rightarrow>
         State_Monad.return (Return (Rejected (SfdxError (unfulfilledMessage this))))
   })"

definition Java8AvailableRequirement_checkFunction ::
  "env \<Rightarrow> requirement_fields \<Rightarrow> check_result io" where
  "Java8AvailableRequirement_checkFunction e this = async_function (do {
     p \<leftarrow> AndroidUtils_androidSDKPrerequisitesCheck e;
     p1 \<leftarrow> then_p p (\<lambda>result. State_Monad.return (Resolved (fulfilledMessage this)));
     p2 \<leftarrow> catch_p p1 (\<lambda>error.
       State_Monad.return
         (case get_message error of
            Throw x \<Rightarrow> Throw x
          | Return msg \<Rightarrow>
              Return (Rejected (SfdxError (format e (unfulfilledMessage this) [msg])))));
     State_Monad.return (Return p2)
   })"

definition AndroidSDKToolsInstalledRequirement_checkFunction ::
  "env \<Rightarrow> requirement_fields \<Rightarrow> check_result io" where
  "AndroidSDKToolsInstalledRequirement_checkFunction e this = async_function (do {
     p \<leftarrow> AndroidUtils_fetchAndroidCmdLineToolsLocation e;
     p1 \<leftarrow> then_p p (\<lambda>result.
       State_Monad.return
         (Resolved (convertToUnixPath e (format e (fulfilledMessage this) [JStr result]))));
     p2 \<leftarrow> catch_p p1 (\<lambda>error.
       State_Monad.return (Return (Rejected (SfdxError (unfulfilledMessage this)))));
     State_Monad.return (Return p2)
   })"

definition AndroidSDKPlatformToolsInstalledRequirement_checkFunction ::
  "env \<Rightarrow> platform_tools_fields \<Rightarrow> check_result io" where
  "AndroidSDKPlatformToolsInstalledRequirement_checkFunction e this = async_function (do {
     p \<leftarrow> AndroidUtils_fetchAndroidSDKPlatformToolsLocation e;
     p1 \<leftarrow> then_p p (\<lambda>result.
       State_Monad.return
         (Resolved (convertToUnixPath e (format e (fulfilledMessage this) [JStr result]))));
     p2 \<leftarrow> catch_p p1 (\<lambda>error.
       case get_status error of
         Throw x \<Rightarrow> State_Monad.return (Throw x)
       | Return st \<Rightarrow>
           if st = JNum 127 then do {
             tools \<leftarrow> AndroidUtils_getAndroidPlatformTools e;
             State_Monad.return
               (Return (Rejected (SfdxError (format e (notFoundMessage this) [JStr tools]))))
           } else do {
             cfg \<leftarrow> PlatformConfig_androidConfig e;
             State_Monad.return
               (Return (Rejected (SfdxError
                  (format e (unfulfilledMessage this) [JStr (minSupportedRuntime cfg)]))))
           });
     State_Monad.return (Return p2)
   })"

definition PlatformAPIPackageRequirement_checkFunction ::
  "env \<Rightarrow> package_fields \<Rightarrow> check_result io" where
  "PlatformAPIPackageRequirement_checkFunction e this = async_function (do {
     p \<leftarrow> AndroidUtils_fetchSupportedAndroidAPIPackage e (apiLevel this);
     p1 \<leftarrow> then_p p (\<lambda>result.
       State_Monad.return
         (Resolved (format e (fulfilledMessage this) [JStr (platformAPI result)])));
     p2 \<leftarrow> catch_p p1 (\<lambda>error. do {
       cfg \<leftarrow> PlatformConfig_androidConfig e;
       State_Monad.return
         (Return (Rejected (SfdxError
            (format e (unfulfilledMessage this) [JStr (minSupportedRuntime cfg)]))))
     });
     State_Monad.return (Return p2)
   })"

definition EmulatorImagesRequirement_checkFunction ::
  "env \<Rightarrow> package_fields \<Rightarrow> check_result io" where
  "EmulatorImagesRequirement_checkFunction e this = async_function (do {
     p \<leftarrow> AndroidUtils_fetchSupportedEmulatorImagePackage e (apiLevel this);
     p1 \<leftarrow> then_p p (\<lambda>result.
       State_Monad.return (Resolved (format e (fulfilledMessage this) [JStr (path result)])));
     p2 \<leftarrow> catch_p p1 (\<lambda>error. do {
       cfg \<leftarrow> PlatformConfig_androidConfig e;
       State_Monad.return
         (Return (Rejected (SfdxError
            (format e (unfulfilledMessage this) [JStr (join '','' (supportedImages cfg))]))))
     });
     State_Monad.return (Return p2)
   })"


fun checkFunction :: "env \<Rightarrow> requirement \<Rightarrow> check_result io" where
  "checkFunction e (AndroidSDKRootSetRequirement r) = AndroidSDKRootSetRequirement_checkFunction e r"
| "checkFunction e (Java8AvailableRequirement r) = Java8AvailableRequirement_checkFunction e r"
| "checkFunction e (AndroidSDKToolsInstalledRequirement r) =
     AndroidSDKToolsInstalledRequirement_checkFunction e r"
| "checkFunction e (AndroidSDKPlatformToolsInstalledRequirement r) =
     AndroidSDKPlatformToolsInstalledRequirement_checkFunction e r"
| "checkFunction e (PlatformAPIPackageRequirement r) = PlatformAPIPackageRequirement_checkFunction e r"
| "checkFunction e (EmulatorImagesRequirement r) = EmulatorImagesRequirement_checkFunction e r"

text \<open>A check run on its own: what the call returns, and the calls it made.\<close>

definition outcome :: "env \<Rightarrow> requirement \<Rightarrow> check_result" where
  "outcome e r = fst (run_state (checkFunction e r) [])"

definition calls :: "env \<Rightarrow> requirement \<Rightarrow> event list" where
  "calls e r = snd (run_state (checkFunction e r) [])"

subsection \<open>The class that assembles the requirements\<close>

record base_setup =
  setup_logger :: logger
  setupMessages :: messages
  requirements :: "requirement list"

text \<open>
  Modelled from the spec: the constructor of \<open>BaseSetup\<close> (file \<open>Requirements.ts\<close>, not among
  the sources). It keeps the logger and the message catalog and instantiates no requirement
  (spec 4.4: the profile's construction "is the only place where concrete \<open>Requirement\<close>
  implementations are instantiated"), so its catalog starts empty.
\<close>

definition BaseSetup :: "messages \<Rightarrow> logger \<Rightarrow> base_setup" where
  "BaseSetup ms lg = \<lparr>setup_logger = lg, setupMessages = ms, requirements = []\<rparr>"

text \<open>
  Modelled from the spec: \<open>BaseSetup.addBaseRequirements\<close> (file \<open>Requirements.ts\<close>, not among
  the sources). Spec 4.2: "\<open>add(requirements)\<close> appends to the catalog"; "no check logic
  lives here".
\<close>

definition addBaseRequirements :: "base_setup \<Rightarrow> requirement list \<Rightarrow> base_setup" where
  "addBaseRequirements s reqs = s\<lparr>requirements := requirements s @ reqs\<rparr>"

text \<open>
  The constructor of \<open>AndroidEnvironmentSetup\<close>: first the array \<open>requirements\<close> it
  builds from \<open>this.setupMessages\<close>, \<open>this.logger\<close> and \<open>apiLevel\<close>, then the whole
  constructor, which hands the array to \<open>addBaseRequirements\<close>. The message catalog \<open>ms\<close>
  is what \<open>BaseSetup\<close> loads into \<open>this.setupMessages\<close>.
\<close>

definition AndroidEnvironmentSetup_requirements ::
  "messages \<Rightarrow> logger \<Rightarrow> string option \<Rightarrow> requirement list io" where
  "AndroidEnvironmentSetup_requirements ms lg lvl = do {
     r1 \<leftarrow> new_AndroidSDKRootSetRequirement ms lg;
     r2 \<leftarrow> new_Java8AvailableRequirement ms lg;
     r3 \<leftarrow> new_AndroidSDKToolsInstalledRequirement ms lg;
     r4 \<leftarrow> new_AndroidSDKPlatformToolsInstalledRequirement ms lg;
     r5 \<leftarrow> new_PlatformAPIPackageRequirement ms lg lvl;
     r6 \<leftarrow> new_EmulatorImagesRequirement ms lg lvl;
     State_Monad.return [r1, r2, r3, r4, r5, r6]
   }"

definition AndroidEnvironmentSetup :: "messages \<Rightarrow> logger \<Rightarrow> string option \<Rightarrow> base_setup io" where
  "AndroidEnvironmentSetup ms lg lvl = do {
     let this = BaseSetup ms lg;
     reqs \<leftarrow> AndroidEnvironmentSetup_requirements (setupMessages this) (setup_logger this) lvl;
     State_Monad.return (addBaseRequirements this reqs)
   }"

text \<open>The requirements the constructor builds, and the calls the construction makes.\<close>

definition android_requirements :: "messages \<Rightarrow> logger \<Rightarrow> string option \<Rightarrow> requirement list" where
  "android_requirements ms lg lvl = fst (run_state (AndroidEnvironmentSetup_requirements ms lg lvl) [])"

definition construction_calls :: "messages \<Rightarrow> logger \<Rightarrow> string option \<Rightarrow> event list" where
  "construction_calls ms lg lvl = snd (run_state (AndroidEnvironmentSetup ms lg lvl) [])"

fun message_read :: "event \<Rightarrow> bool" where
  "message_read (GetMessage key) = True"
| "message_read ev = False"


definition message_keys :: "string list" where
  "message_keys =
     [''android:reqs:androidhome:title'',
      ''android:reqs:androidhome:fulfilledMessage'',
      ''android:reqs:androidhome:unfulfilledMessage'',
      ''android:reqs:androidsdkprerequisitescheck:title'',
      ''android:reqs:androidsdkprerequisitescheck:fulfilledMessage'',
      ''android:reqs:androidsdkprerequisitescheck:unfulfilledMessage'',
      ''android:reqs:cmdlinetools:title'',
      ''android:reqs:cmdlinetools:fulfilledMessage'',
      ''android:reqs:cmdlinetools:unfulfilledMessage'',
      ''android:reqs:platformtools:title'',
      ''android:reqs:platformtools:fulfilledMessage'',
      ''android:reqs:platformtools:unfulfilledMessage'',
      ''android:reqs:platformtools:notFound'',
      ''android:reqs:platformapi:title'',
      ''android:reqs:platformapi:fulfilledMessage'',
      ''android:reqs:platformapi:unfulfilledMessage'',
      ''android:reqs:emulatorimages:title'',
      ''android:reqs:emulatorimages:fulfilledMessage'',
      ''android:reqs:emulatorimages:unfulfilledMessage'']"

text \<open>
  A formatter shows its argument in a template when the rendered text of the template with
  one string argument always contains that argument.
\<close>

definition shows_argument :: "(string \<Rightarrow> js_val list \<Rightarrow> string) \<Rightarrow> string \<Rightarrow> bool" where
  "shows_argument fmt template = (\<forall>a. sublist a (fmt template [JStr a]))"

subsection \<open>Sample capabilities for the examples\<close>

text \<open>
  The examples below run the checks with these instances of the two string functions:
  \<open>unix_path\<close> turns every backslash into a slash, and \<open>format_s\<close> replaces each \<open>%s\<close> by the
  next argument when that is a string and copies every other character. In \<open>sample_env\<close>
  every probe fails; the examples change one probe at a time.
\<close>

definition unix_path :: "string \<Rightarrow> string" where
  "unix_path s = map (\<lambda>c. if c = CHR 0x5C then CHR ''/'' else c) s"

fun format_s :: "string \<Rightarrow> js_val list \<Rightarrow> string" where
  "format_s [] args = []"
| "format_s [c] args = [c]"
| "format_s (c # d # cs) args =
     (case args of
        JStr a # rest \<Rightarrow>
          if c = CHR ''%'' \<and> d = CHR ''s'' then a @ format_s cs rest
          else c # format_s (d # cs) args
      | _ \<Rightarrow> c # format_s (d # cs) args)"

definition sample_env :: env where
  "sample_env =
     \<lparr>getAndroidSdkRoot = None,
      androidSDKPrerequisitesCheck = Rejected (Thrown JUndefined (JStr ''no java'')),
      fetchAndroidCmdLineToolsLocation = Rejected (Thrown (JNum 127) (JStr ''not found'')),
      fetchAndroidSDKPlatformToolsLocation = Rejected (Thrown (JNum 127) (JStr ''not found'')),
      fetchSupportedAndroidAPIPackage = (\<lambda>lvl. Rejected Nullish),
      fetchSupportedEmulatorImagePackage = (\<lambda>lvl. Rejected Nullish),
      getAndroidPlatformTools = ''platform-tools'',
      convertToUnixPath = unix_path,
      androidConfig = \<lparr>minSupportedRuntime = ''23'', supportedImages = [''google_apis'', ''default'']\<rparr>,
      format = format_s\<rparr>"

definition sample_fields :: requirement_fields where
  "sample_fields =
     \<lparr>title = ''check'', fulfilledMessage = ''found %s'', unfulfilledMessage = ''missing %s'',
      logger = Logger ''test''\<rparr>"

definition sample_tools_fields :: platform_tools_fields where
  "sample_tools_fields =
     \<lparr>title = ''platform tools'', fulfilledMessage = ''found %s'',
      unfulfilledMessage = ''install API %s'', logger = Logger ''test'',
      notFoundMessage = ''%s not found''\<rparr>"

definition sample_package_fields :: package_fields where
  "sample_package_fields =
     \<lparr>title = ''package'', fulfilledMessage = ''found %s'',
      unfulfilledMessage = ''need one of %s'', logger = Logger ''test'',
      apiLevel = Some ''30''\<rparr>"

definition sample_package :: android_package where
  "sample_package = \<lparr>platformAPI = ''30'', path = ''/x''\<rparr>"


section \<open>Properties\<close>

subsection \<open>What each check and the constructor compute\<close>

lemma run_state_perform [simp]: "run_state (perform ev v) tr = (v, tr @ [ev])"
  by (simp add: perform_def)

lemmas capability_defs =
  getMessage_def AndroidUtils_getAndroidSdkRoot_def AndroidUtils_androidSDKPrerequisitesCheck_def
  AndroidUtils_fetchAndroidCmdLineToolsLocation_def
  AndroidUtils_fetchAndroidSDKPlatformToolsLocation_def
  AndroidUtils_fetchSupportedAndroidAPIPackage_def
  AndroidUtils_fetchSupportedEmulatorImagePackage_def
  AndroidUtils_getAndroidPlatformTools_def PlatformConfig_androidConfig_def

lemma run_sdk_root:
  "run_state (AndroidSDKRootSetRequirement_checkFunction e this) tr =
     (case getAndroidSdkRoot e of
        Some r \<Rightarrow> Return (Resolved (convertToUnixPath e
          (format e (fulfilledMessage this) [JStr (rootSource r), JStr (rootLocation r)])))
      | None \<Rightarrow> Return (Rejected (SfdxError (unfulfilledMessage this))),
      tr @ [GetAndroidSdkRoot])"
  by (simp add: AndroidSDKRootSetRequirement_checkFunction_def async_function_def
      capability_defs split: option.splits)

lemma run_java8:
  "run_state (Java8AvailableRequirement_checkFunction e this) tr =
     (case androidSDKPrerequisitesCheck e of
        Resolved v \<Rightarrow> Return (Resolved (fulfilledMessage this))
      | Rejected Nullish \<Rightarrow> Return (Rejected TypeError)
      | Rejected (Thrown st msg) \<Rightarrow>
          Return (Rejected (SfdxError (format e (unfulfilledMessage this) [msg]))),
      tr @ [AndroidSDKPrerequisitesCheck])"
  by (simp add: Java8AvailableRequirement_checkFunction_def async_function_def then_p_def
      catch_p_def capability_defs split: promise.splits reason.splits)

lemma run_cmdline_tools:
  "run_state (AndroidSDKToolsInstalledRequirement_checkFunction e this) tr =
     (case fetchAndroidCmdLineToolsLocation e of
        Resolved loc \<Rightarrow>
          Return (Resolved (convertToUnixPath e (format e (fulfilledMessage this) [JStr loc])))
      | Rejected x \<Rightarrow> Return (Rejected (SfdxError (unfulfilledMessage this))),
      tr @ [FetchAndroidCmdLineToolsLocation])"
  by (simp add: AndroidSDKToolsInstalledRequirement_checkFunction_def async_function_def then_p_def
      catch_p_def capability_defs split: promise.splits)

lemma run_platform_tools:
  "run_state (AndroidSDKPlatformToolsInstalledRequirement_checkFunction e this) tr =
     (case fetchAndroidSDKPlatformToolsLocation e of
        Resolved loc \<Rightarrow>
          (Return (Resolved (convertToUnixPath e (format e (fulfilledMessage this) [JStr loc]))),
           tr @ [FetchAndroidSDKPlatformToolsLocation])
      | Rejected Nullish \<Rightarrow>
          (Return (Rejected TypeError), tr @ [FetchAndroidSDKPlatformToolsLocation])
      | Rejected (Thrown st msg) \<Rightarrow>
          if st = JNum 127
          then (Return (Rejected (SfdxError
                  (format e (notFoundMessage this) [JStr (getAndroidPlatformTools e)]))),
                tr @ [FetchAndroidSDKPlatformToolsLocation, GetAndroidPlatformTools])
          else (Return (Rejected (SfdxError
                  (format e (unfulfilledMessage this)
                     [JStr (minSupportedRuntime (androidConfig e))]))),
                tr @ [FetchAndroidSDKPlatformToolsLocation, AndroidConfig]))"
  by (simp add: AndroidSDKPlatformToolsInstalledRequirement_checkFunction_def async_function_def
      then_p_def catch_p_def capability_defs split: promise.splits reason.splits)

lemma run_platform_api:
  "run_state (PlatformAPIPackageRequirement_checkFunction e this) tr =
     (case fetchSupportedAndroidAPIPackage e (apiLevel this) of
        Resolved pkg \<Rightarrow>
          (Return (Resolved (format e (fulfilledMessage this) [JStr (platformAPI pkg)])),
           tr @ [FetchSupportedAndroidAPIPackage (apiLevel this)])
      | Rejected x \<Rightarrow>
          (Return (Rejected (SfdxError
             (format e (unfulfilledMessage this) [JStr (minSupportedRuntime (androidConfig e))]))),
           tr @ [FetchSupportedAndroidAPIPackage (apiLevel this), AndroidConfig]))"
  by (simp add: PlatformAPIPackageRequirement_checkFunction_def async_function_def
      then_p_def catch_p_def capability_defs split: promise.splits)

lemma run_emulator_images:
  "run_state (EmulatorImagesRequirement_checkFunction e this) tr =
     (case fetchSupportedEmulatorImagePackage e (apiLevel this) of
        Resolved pkg \<Rightarrow>
          (Return (Resolved (format e (fulfilledMessage this) [JStr (path pkg)])),
           tr @ [FetchSupportedEmulatorImagePackage (apiLevel this)])
      | Rejected x \<Rightarrow>
          (Return (Rejected (SfdxError
             (format e (unfulfilledMessage this)
                [JStr (join '','' (supportedImages (androidConfig e)))]))),
           tr @ [FetchSupportedEmulatorImagePackage (apiLevel this), AndroidConfig]))"
  by (simp add: EmulatorImagesRequirement_checkFunction_def async_function_def
      then_p_def catch_p_def capability_defs split: promise.splits)

lemmas run_checks = run_sdk_root run_java8 run_cmdline_tools run_platform_tools
  run_platform_api run_emulator_images

lemmas sample_defs = sample_env_def sample_fields_def sample_tools_fields_def
  sample_package_fields_def sample_package_def unix_path_def

lemmas constructor_defs =
  new_AndroidSDKRootSetRequirement_def new_Java8AvailableRequirement_def
  new_AndroidSDKToolsInstalledRequirement_def new_AndroidSDKPlatformToolsInstalledRequirement_def
  new_PlatformAPIPackageRequirement_def new_EmulatorImagesRequirement_def

lemma run_requirements:
  "run_state (AndroidEnvironmentSetup_requirements ms lg lvl) tr =
     ([AndroidSDKRootSetRequirement
         \<lparr>title = ms ''android:reqs:androidhome:title'',
          fulfilledMessage = ms ''android:reqs:androidhome:fulfilledMessage'',
          unfulfilledMessage = ms ''android:reqs:androidhome:unfulfilledMessage'',
          logger = lg\<rparr>,
       Java8AvailableRequirement
         \<lparr>title = ms ''android:reqs:androidsdkprerequisitescheck:title'',
          fulfilledMessage = ms ''android:reqs:androidsdkprerequisitescheck:fulfilledMessage'',
          unfulfilledMessage = ms ''android:reqs:androidsdkprerequisitescheck:unfulfilledMessage'',
          logger = lg\<rparr>,
       AndroidSDKToolsInstalledRequirement
         \<lparr>title = ms ''android:reqs:cmdlinetools:title'',
          fulfilledMessage = ms ''android:reqs:cmdlinetools:fulfilledMessage'',
          unfulfilledMessage = ms ''android:reqs:cmdlinetools:unfulfilledMessage'',
          logger = lg\<rparr>,
       AndroidSDKPlatformToolsInstalledRequirement
         \<lparr>title = ms ''android:reqs:platformtools:title'',
          fulfilledMessage = ms ''android:reqs:platformtools:fulfilledMessage'',
          unfulfilledMessage = ms ''android:reqs:platformtools:unfulfilledMessage'',
          logger = lg,
          notFoundMessage = ms ''android:reqs:platformtools:notFound''\<rparr>,
       PlatformAPIPackageRequirement
         \<lparr>title = ms ''android:reqs:platformapi:title'',
          fulfilledMessage = ms ''android:reqs:platformapi:fulfilledMessage'',
          unfulfilledMessage = ms ''android:reqs:platformapi:unfulfilledMessage'',
          logger = lg, apiLevel = lvl\<rparr>,
       EmulatorImagesRequirement
         \<lparr>title = ms ''android:reqs:emulatorimages:title'',
          fulfilledMessage = ms ''android:reqs:emulatorimages:fulfilledMessage'',
          unfulfilledMessage = ms ''android:reqs:emulatorimages:unfulfilledMessage'',
          logger = lg, apiLevel = lvl\<rparr>],
      tr @ map GetMessage message_keys)"
  by (simp add: AndroidEnvironmentSetup_requirements_def constructor_defs getMessage_def
      message_keys_def)

lemma run_constructor:
  "run_state (AndroidEnvironmentSetup ms lg lvl) tr =
     (\<lparr>setup_logger = lg, setupMessages = ms,
       requirements = fst (run_state (AndroidEnvironmentSetup_requirements ms lg lvl) tr)\<rparr>,
      tr @ map GetMessage message_keys)"
  by (simp add: AndroidEnvironmentSetup_def BaseSetup_def addBaseRequirements_def run_requirements)


lemma format_s_shows_argument: "shows_argument format_s ''found %s''"
proof -
  have "sublist a (''found '' @ a @ [])" for a :: string
    unfolding sublist_def by blast
  then show ?thesis
    by (simp add: shows_argument_def)
qed

subsection \<open>The platform-tools requirement\<close>

text \<open>
  Claim C1. In the check of \<open>AndroidSDKPlatformToolsInstalledRequirement\<close>, when the probe
  \<open>fetchAndroidSDKPlatformToolsLocation\<close> is rejected with an error whose \<open>status\<close> is 127,
  the check is rejected with the not-found template formatted with the platform-tools
  package name; when it is rejected with an error of any other \<open>status\<close> (a missing
  \<open>status\<close> included), the check is rejected with the unfulfilled template formatted with
  the configured minimum supported runtime. The fulfilled message is produced exactly
  when the probe resolves.
\<close>

theorem platform_tools_check_messages:
  "(\<forall>msg. fetchAndroidSDKPlatformToolsLocation e = Rejected (Thrown (JNum 127) msg) \<longrightarrow>
      outcome e (AndroidSDKPlatformToolsInstalledRequirement this) =
        Return (Rejected (SfdxError
          (format e (notFoundMessage this) [JStr (getAndroidPlatformTools e)]))))
   \<and> (\<forall>st msg. fetchAndroidSDKPlatformToolsLocation e = Rejected (Thrown st msg) \<and> st \<noteq> JNum 127 \<longrightarrow>
      outcome e (AndroidSDKPlatformToolsInstalledRequirement this) =
        Return (Rejected (SfdxError
          (format e (unfulfilledMessage this) [JStr (minSupportedRuntime (androidConfig e))]))))
   \<and> (\<forall>loc. fetchAndroidSDKPlatformToolsLocation e = Resolved loc \<longrightarrow>
      outcome e (AndroidSDKPlatformToolsInstalledRequirement this) =
        Return (Resolved (convertToUnixPath e (format e (fulfilledMessage this) [JStr loc]))))
   \<and> ((\<exists>m. outcome e (AndroidSDKPlatformToolsInstalledRequirement this) = Return (Resolved m)) \<longrightarrow>
        (\<exists>loc. fetchAndroidSDKPlatformToolsLocation e = Resolved loc))"
  by (simp add: outcome_def run_platform_tools split: promise.splits reason.splits)

theorem platform_tools_check_messages_witness:
  "fetchAndroidSDKPlatformToolsLocation sample_env = Rejected (Thrown (JNum 127) (JStr ''not found''))
   \<and> outcome sample_env (AndroidSDKPlatformToolsInstalledRequirement sample_tools_fields) =
       Return (Rejected (SfdxError ''platform-tools not found''))
   \<and> outcome
        (sample_env\<lparr>fetchAndroidSDKPlatformToolsLocation := Rejected (Thrown (JNum 1) (JStr ''old''))\<rparr>)
        (AndroidSDKPlatformToolsInstalledRequirement sample_tools_fields) =
       Return (Rejected (SfdxError ''install API 23''))
   \<and> outcome
        (sample_env\<lparr>fetchAndroidSDKPlatformToolsLocation := Resolved ''/sdk/platform-tools''\<rparr>)
        (AndroidSDKPlatformToolsInstalledRequirement sample_tools_fields) =
       Return (Resolved ''found /sdk/platform-tools'')"
  using platform_tools_check_messages [of sample_env sample_tools_fields]
    platform_tools_check_messages
      [of "sample_env\<lparr>fetchAndroidSDKPlatformToolsLocation := Rejected (Thrown (JNum 1) (JStr ''old''))\<rparr>"
          sample_tools_fields]
    platform_tools_check_messages
      [of "sample_env\<lparr>fetchAndroidSDKPlatformToolsLocation := Resolved ''/sdk/platform-tools''\<rparr>"
          sample_tools_fields]
  by (simp add: sample_defs)

subsection \<open>No check throws\<close>

text \<open>
  Claim C2. For each of the six requirements, every environment and every probe result,
  the call of \<open>checkFunction\<close> returns a promise: it never throws. The expected failures
  (no SDK root, a probe rejected with an error value) settle that promise as rejected with
  an \<open>SfdxError\<close> carrying the unfulfilled message. The one unexpected failure, a probe
  rejected with \<open>null\<close> or \<open>undefined\<close> in a check that reads a property of the reason, also
  ends in a rejected promise, with a \<open>TypeError\<close>.
\<close>

theorem check_never_throws:
  "(\<exists>p. outcome e r = Return p)
   \<and> (getAndroidSdkRoot e = None \<longrightarrow>
        (\<exists>m. outcome e (AndroidSDKRootSetRequirement a) = Return (Rejected (SfdxError m))))
   \<and> (\<forall>st msg. androidSDKPrerequisitesCheck e = Rejected (Thrown st msg) \<longrightarrow>
        (\<exists>m. outcome e (Java8AvailableRequirement a) = Return (Rejected (SfdxError m))))
   \<and> (\<forall>x. fetchAndroidCmdLineToolsLocation e = Rejected x \<longrightarrow>
        (\<exists>m. outcome e (AndroidSDKToolsInstalledRequirement a) = Return (Rejected (SfdxError m))))
   \<and> (\<forall>st msg. fetchAndroidSDKPlatformToolsLocation e = Rejected (Thrown st msg) \<longrightarrow>
        (\<exists>m. outcome e (AndroidSDKPlatformToolsInstalledRequirement b) =
               Return (Rejected (SfdxError m))))
   \<and> (\<forall>x. fetchSupportedAndroidAPIPackage e (apiLevel c) = Rejected x \<longrightarrow>
        (\<exists>m. outcome e (PlatformAPIPackageRequirement c) = Return (Rejected (SfdxError m))))
   \<and> (\<forall>x. fetchSupportedEmulatorImagePackage e (apiLevel c) = Rejected x \<longrightarrow>
        (\<exists>m. outcome e (EmulatorImagesRequirement c) = Return (Rejected (SfdxError m))))
   \<and> (androidSDKPrerequisitesCheck e = Rejected Nullish \<longrightarrow>
        outcome e (Java8AvailableRequirement a) = Return (Rejected TypeError))
   \<and> (fetchAndroidSDKPlatformToolsLocation e = Rejected Nullish \<longrightarrow>
        outcome e (AndroidSDKPlatformToolsInstalledRequirement b) = Return (Rejected TypeError))"
proof -
  have "\<exists>p. outcome e r = Return p"
    by (cases r)
      (simp_all add: outcome_def run_checks split: promise.splits reason.splits option.splits)
  then show ?thesis
    by (simp add: outcome_def run_checks)
qed

theorem check_never_throws_witness:
  "getAndroidSdkRoot sample_env = None
   \<and> outcome sample_env (AndroidSDKRootSetRequirement sample_fields) =
       Return (Rejected (SfdxError ''missing %s''))
   \<and> outcome sample_env (Java8AvailableRequirement sample_fields) =
       Return (Rejected (SfdxError ''missing no java''))
   \<and> outcome sample_env (AndroidSDKToolsInstalledRequirement sample_fields) =
       Return (Rejected (SfdxError ''missing %s''))
   \<and> outcome sample_env (AndroidSDKPlatformToolsInstalledRequirement sample_tools_fields) =
       Return (Rejected (SfdxError ''platform-tools not found''))
   \<and> outcome sample_env (PlatformAPIPackageRequirement sample_package_fields) =
       Return (Rejected (SfdxError ''need one of 23''))
   \<and> outcome sample_env (EmulatorImagesRequirement sample_package_fields) =
       Return (Rejected (SfdxError ''need one of google_apis,default''))
   \<and> outcome (sample_env\<lparr>androidSDKPrerequisitesCheck := Rejected Nullish\<rparr>)
        (Java8AvailableRequirement sample_fields) = Return (Rejected TypeError)
   \<and> outcome (sample_env\<lparr>fetchAndroidSDKPlatformToolsLocation := Rejected Nullish\<rparr>)
        (AndroidSDKPlatformToolsInstalledRequirement sample_tools_fields) =
       Return (Rejected TypeError)"
  using check_never_throws
      [of sample_env "AndroidSDKRootSetRequirement sample_fields" sample_fields
          sample_tools_fields sample_package_fields]
    check_never_throws
      [of "sample_env\<lparr>androidSDKPrerequisitesCheck := Rejected Nullish\<rparr>"
          "Java8AvailableRequirement sample_fields" sample_fields
          sample_tools_fields sample_package_fields]
    check_never_throws
      [of "sample_env\<lparr>fetchAndroidSDKPlatformToolsLocation := Rejected Nullish\<rparr>"
          "Java8AvailableRequirement sample_fields" sample_fields
          sample_tools_fields sample_package_fields]
  by (simp add: sample_defs outcome_def run_checks)

subsection \<open>The emulator-images requirement\<close>

text \<open>
  Claim C3. In the check of \<open>EmulatorImagesRequirement\<close>, whenever the probe
  \<open>fetchSupportedEmulatorImagePackage\<close> is rejected, whatever the reason, the check is
  rejected with the unfulfilled template formatted with the configured supported images
  joined by a comma, in the configured order; whenever the probe resolves with a package,
  the check resolves with the fulfilled template formatted with the package's path.
\<close>

theorem emulator_images_check_messages:
  "(\<forall>x. fetchSupportedEmulatorImagePackage e (apiLevel this) = Rejected x \<longrightarrow>
      outcome e (EmulatorImagesRequirement this) =
        Return (Rejected (SfdxError
          (format e (unfulfilledMessage this)
             [JStr (join '','' (supportedImages (androidConfig e)))]))))
   \<and> (\<forall>pkg. fetchSupportedEmulatorImagePackage e (apiLevel this) = Resolved pkg \<longrightarrow>
      outcome e (EmulatorImagesRequirement this) =
        Return (Resolved (format e (fulfilledMessage this) [JStr (path pkg)])))"
  by (simp add: outcome_def run_emulator_images)

theorem emulator_images_check_messages_witness:
  "fetchSupportedEmulatorImagePackage sample_env (apiLevel sample_package_fields) = Rejected Nullish
   \<and> supportedImages (androidConfig sample_env) = [''google_apis'', ''default'']
   \<and> outcome sample_env (EmulatorImagesRequirement sample_package_fields) =
       Return (Rejected (SfdxError ''need one of google_apis,default''))
   \<and> outcome
       (sample_env\<lparr>fetchSupportedEmulatorImagePackage := (\<lambda>lvl. Resolved sample_package)\<rparr>)
       (EmulatorImagesRequirement sample_package_fields) = Return (Resolved ''found /x'')"
  using emulator_images_check_messages [of sample_env sample_package_fields]
    emulator_images_check_messages
      [of "sample_env\<lparr>fetchSupportedEmulatorImagePackage := (\<lambda>lvl. Resolved sample_package)\<rparr>"
          sample_package_fields]
  by (simp add: sample_defs)

subsection \<open>The platform-API package requirement\<close>

text \<open>
  Claim C4. In the check of \<open>PlatformAPIPackageRequirement\<close>, whenever the probe
  \<open>fetchSupportedAndroidAPIPackage\<close> resolves with a package, the check resolves with the
  fulfilled template formatted with the package's \<open>platformAPI\<close>; so, with a formatter that
  shows its argument in that template, a package of platform API "30" gives a message
  that contains "30". Whenever the probe is rejected, the check is rejected with the
  unfulfilled template formatted with the configured minimum supported runtime.
\<close>

theorem platform_api_check_messages:
  "(\<forall>pkg. fetchSupportedAndroidAPIPackage e (apiLevel this) = Resolved pkg \<longrightarrow>
      outcome e (PlatformAPIPackageRequirement this) =
        Return (Resolved (format e (fulfilledMessage this) [JStr (platformAPI pkg)])))
   \<and> (\<forall>pkg. fetchSupportedAndroidAPIPackage e (apiLevel this) = Resolved pkg
          \<and> shows_argument (format e) (fulfilledMessage this) \<longrightarrow>
      (\<exists>m. outcome e (PlatformAPIPackageRequirement this) = Return (Resolved m)
            \<and> sublist (platformAPI pkg) m))
   \<and> (\<forall>x. fetchSupportedAndroidAPIPackage e (apiLevel this) = Rejected x \<longrightarrow>
      outcome e (PlatformAPIPackageRequirement this) =
        Return (Rejected (SfdxError
          (format e (unfulfilledMessage this) [JStr (minSupportedRuntime (androidConfig e))]))))"
  by (simp add: outcome_def run_platform_api shows_argument_def)

theorem platform_api_check_messages_witness:
  "shows_argument format_s ''found %s''
   \<and> platformAPI sample_package = ''30''
   \<and> outcome
       (sample_env\<lparr>fetchSupportedAndroidAPIPackage := (\<lambda>lvl. Resolved sample_package)\<rparr>)
       (PlatformAPIPackageRequirement sample_package_fields) = Return (Resolved ''found 30'')
   \<and> sublist ''30'' ''found 30''
   \<and> outcome sample_env (PlatformAPIPackageRequirement sample_package_fields) =
       Return (Rejected (SfdxError ''need one of 23''))"
  using format_s_shows_argument
    platform_api_check_messages [of sample_env sample_package_fields]
    platform_api_check_messages
      [of "sample_env\<lparr>fetchSupportedAndroidAPIPackage := (\<lambda>lvl. Resolved sample_package)\<rparr>"
          sample_package_fields]
  by (simp add: sample_defs outcome_def run_platform_api)

subsection \<open>The SDK-root requirement\<close>

text \<open>
  Claim C5. The check of \<open>AndroidSDKRootSetRequirement\<close> resolves if and only if
  \<open>getAndroidSdkRoot\<close> returns a root. With a root, it resolves with the fulfilled template
  formatted with the root's \<open>rootSource\<close> and \<open>rootLocation\<close> and passed through
  \<open>convertToUnixPath\<close>; without one, it is rejected with the unfulfilled template as it is,
  no formatting applied.
\<close>

theorem sdk_root_check_follows_root:
  "((\<exists>m. outcome e (AndroidSDKRootSetRequirement this) = Return (Resolved m)) \<longleftrightarrow>
      getAndroidSdkRoot e \<noteq> None)
   \<and> (\<forall>r. getAndroidSdkRoot e = Some r \<longrightarrow>
         outcome e (AndroidSDKRootSetRequirement this) =
           Return (Resolved (convertToUnixPath e
             (format e (fulfilledMessage this) [JStr (rootSource r), JStr (rootLocation r)]))))
   \<and> (getAndroidSdkRoot e = None \<longrightarrow>
         outcome e (AndroidSDKRootSetRequirement this) =
           Return (Rejected (SfdxError (unfulfilledMessage this))))"
  by (cases "getAndroidSdkRoot e") (simp_all add: outcome_def run_sdk_root)

theorem sdk_root_check_follows_root_witness:
  "getAndroidSdkRoot sample_env = None
   \<and> outcome sample_env (AndroidSDKRootSetRequirement sample_fields) =
        Return (Rejected (SfdxError ''missing %s''))
   \<and> getAndroidSdkRoot
        (sample_env\<lparr>getAndroidSdkRoot :=
           Some \<lparr>rootSource = ''ANDROID_HOME'', rootLocation = ''C:'' @ [CHR 0x5C] @ ''sdk''\<rparr>\<rparr>) \<noteq> None
   \<and> outcome
        (sample_env\<lparr>getAndroidSdkRoot :=
           Some \<lparr>rootSource = ''ANDROID_HOME'', rootLocation = ''C:'' @ [CHR 0x5C] @ ''sdk''\<rparr>\<rparr>)
        (AndroidSDKRootSetRequirement (sample_fields\<lparr>fulfilledMessage := ''%s is %s''\<rparr>)) =
        Return (Resolved ''ANDROID_HOME is C:/sdk'')"
  using sdk_root_check_follows_root [of sample_env sample_fields]
    sdk_root_check_follows_root
      [of "sample_env\<lparr>getAndroidSdkRoot :=
             Some \<lparr>rootSource = ''ANDROID_HOME'', rootLocation = ''C:'' @ [CHR 0x5C] @ ''sdk''\<rparr>\<rparr>"
          "sample_fields\<lparr>fulfilledMessage := ''%s is %s''\<rparr>"]
  by (simp add: sample_defs)

subsection \<open>The configuration is read on failure only\<close>

text \<open>
  Claim C6. For every requirement, \<open>PlatformConfig.androidConfig()\<close> (the source of
  \<open>minSupportedRuntime\<close> and \<open>supportedImages\<close>) is called only in a check that ends rejected
  with an \<open>SfdxError\<close>. With the results of the probes fixed, whether a check resolves, and
  with which message, does not depend on the configuration.
\<close>

theorem config_read_on_failure_only:
  "(AndroidConfig \<in> set (calls e r) \<longrightarrow> (\<exists>m. outcome e r = Return (Rejected (SfdxError m))))
   \<and> (outcome (e\<lparr>androidConfig := cfg\<rparr>) r = Return (Resolved m) \<longleftrightarrow>
        outcome e r = Return (Resolved m))"
  by (cases r)
    (simp_all add: outcome_def calls_def run_checks split: promise.splits reason.splits option.splits)

theorem config_read_on_failure_only_witness:
  "AndroidConfig \<in> set (calls sample_env (PlatformAPIPackageRequirement sample_package_fields))
   \<and> outcome sample_env (PlatformAPIPackageRequirement sample_package_fields) =
       Return (Rejected (SfdxError ''need one of 23''))
   \<and> outcome
       (sample_env\<lparr>fetchSupportedAndroidAPIPackage := (\<lambda>lvl. Resolved sample_package),
                   androidConfig := \<lparr>minSupportedRuntime = ''99'', supportedImages = []\<rparr>\<rparr>)
       (PlatformAPIPackageRequirement sample_package_fields) = Return (Resolved ''found 30'')
   \<and> outcome
       (sample_env\<lparr>fetchSupportedAndroidAPIPackage := (\<lambda>lvl. Resolved sample_package)\<rparr>)
       (PlatformAPIPackageRequirement sample_package_fields) = Return (Resolved ''found 30'')"
  using config_read_on_failure_only
      [of sample_env "PlatformAPIPackageRequirement sample_package_fields"]
    config_read_on_failure_only
      [of "sample_env\<lparr>fetchSupportedAndroidAPIPackage := (\<lambda>lvl. Resolved sample_package)\<rparr>"
          "PlatformAPIPackageRequirement sample_package_fields"
          "\<lparr>minSupportedRuntime = ''99'', supportedImages = []\<rparr>" "''found 30''"]
  by (simp add: sample_defs outcome_def calls_def run_platform_api)

subsection \<open>Where the API level goes\<close>

text \<open>
  Claim C7. Of the six requirements the constructor builds, only the platform-API package
  requirement and the emulator-images requirement receive \<open>apiLevel\<close>. Two constructions
  that differ only in \<open>apiLevel\<close> build the same first four requirements, whose checks
  therefore return the same results and make the same calls. The last two requirements
  hand \<open>apiLevel\<close> unchanged to their package-discovery probes; an unset \<open>apiLevel\<close>
  reaches both probes as absent, and it is the probe's answer for an absent level that
  decides these two checks.
\<close>

theorem api_level_reaches_package_requirements_only:
  "take 4 (android_requirements ms lg lvl) = take 4 (android_requirements ms lg lvl')
   \<and> map (outcome e) (take 4 (android_requirements ms lg lvl)) =
       map (outcome e) (take 4 (android_requirements ms lg lvl'))
   \<and> map (calls e) (take 4 (android_requirements ms lg lvl)) =
       map (calls e) (take 4 (android_requirements ms lg lvl'))
   \<and> drop 4 (android_requirements ms lg lvl) =
       [PlatformAPIPackageRequirement
         \<lparr>title = ms ''android:reqs:platformapi:title'',
          fulfilledMessage = ms ''android:reqs:platformapi:fulfilledMessage'',
          unfulfilledMessage = ms ''android:reqs:platformapi:unfulfilledMessage'',
          logger = lg, apiLevel = lvl\<rparr>,
        EmulatorImagesRequirement
         \<lparr>title = ms ''android:reqs:emulatorimages:title'',
          fulfilledMessage = ms ''android:reqs:emulatorimages:fulfilledMessage'',
          unfulfilledMessage = ms ''android:reqs:emulatorimages:unfulfilledMessage'',
          logger = lg, apiLevel = lvl\<rparr>]
   \<and> hd (calls e (android_requirements ms lg lvl ! 4)) = FetchSupportedAndroidAPIPackage lvl
   \<and> hd (calls e (android_requirements ms lg lvl ! 5)) = FetchSupportedEmulatorImagePackage lvl
   \<and> ((\<exists>m. outcome e (android_requirements ms lg None ! 4) = Return (Resolved m)) \<longleftrightarrow>
        (\<exists>pkg. fetchSupportedAndroidAPIPackage e None = Resolved pkg))
   \<and> ((\<exists>m. outcome e (android_requirements ms lg None ! 5) = Return (Resolved m)) \<longleftrightarrow>
        (\<exists>pkg. fetchSupportedEmulatorImagePackage e None = Resolved pkg))"
  by (simp add: android_requirements_def run_requirements outcome_def calls_def
      run_platform_api run_emulator_images split: promise.splits)

theorem api_level_reaches_package_requirements_only_witness:
  "take 4 (android_requirements (\<lambda>key. key) (Logger ''test'') (Some ''30'')) =
     take 4 (android_requirements (\<lambda>key. key) (Logger ''test'') None)
   \<and> calls sample_env (android_requirements (\<lambda>key. key) (Logger ''test'') None ! 4) =
       [FetchSupportedAndroidAPIPackage None, AndroidConfig]
   \<and> calls sample_env (android_requirements (\<lambda>key. key) (Logger ''test'') (Some ''30'') ! 5) =
       [FetchSupportedEmulatorImagePackage (Some ''30''), AndroidConfig]
   \<and> map (calls sample_env) (take 4 (android_requirements (\<lambda>key. key) (Logger ''test'') None)) =
       [[GetAndroidSdkRoot], [AndroidSDKPrerequisitesCheck], [FetchAndroidCmdLineToolsLocation],
        [FetchAndroidSDKPlatformToolsLocation, GetAndroidPlatformTools]]"
  using api_level_reaches_package_requirements_only
      [where ms = "\<lambda>key. key" and lg = "Logger ''test''" and lvl = "Some ''30''" and lvl' = None
         and e = sample_env]
  by (simp add: android_requirements_def run_requirements calls_def run_checks sample_defs)

subsection \<open>The catalog\<close>




subsection \<open>Construction runs no check\<close>

text \<open>
  Claim C9. Whatever the logger and the API level, constructing \<open>AndroidEnvironmentSetup\<close>
  makes nineteen calls, all of them reads of the message catalog (the title and the
  templates of each requirement, in the order of the requirements), and registers the
  six requirements it has built: no call of
  \<open>AndroidUtils\<close> or \<open>PlatformConfig\<close> is made, whereas every run of a \<open>checkFunction\<close> makes at
  least one such call. So the construction runs no check.
\<close>

theorem construction_runs_no_check:
  "snd (run_state (AndroidEnvironmentSetup_requirements ms lg lvl) tr) =
     tr @ map GetMessage message_keys
   \<and> requirements (fst (run_state (AndroidEnvironmentSetup ms lg lvl) tr)) =
       fst (run_state (AndroidEnvironmentSetup_requirements ms lg lvl) tr)
   \<and> snd (run_state (AndroidEnvironmentSetup ms lg lvl) tr) = tr @ construction_calls ms lg lvl
   \<and> construction_calls ms lg lvl = map GetMessage message_keys
   \<and> length (construction_calls ms lg lvl) = 19
   \<and> filter (\<lambda>ev. \<not> message_read ev) (construction_calls ms lg lvl) = []
   \<and> filter (\<lambda>ev. \<not> message_read ev) (calls e r) \<noteq> []"
proof -
  have "filter (\<lambda>ev. \<not> message_read ev) (calls e r) \<noteq> []"
    by (cases r)
      (simp_all add: calls_def run_checks split: promise.splits reason.splits option.splits)
  moreover have "length message_keys = 19"
    by (simp add: message_keys_def)
  moreover have "filter (\<lambda>ev. \<not> message_read ev) (map GetMessage message_keys) = []"
    by (simp add: filter_map comp_def)
  ultimately show ?thesis
    by (simp add: construction_calls_def run_constructor run_requirements)
qed

theorem construction_runs_no_check_witness:
  "construction_calls (\<lambda>key. key) (Logger ''test'') None = map GetMessage message_keys
   \<and> filter (\<lambda>ev. \<not> message_read ev) (construction_calls (\<lambda>key. key) (Logger ''test'') None) = []
   \<and> filter (\<lambda>ev. \<not> message_read ev)
        (calls sample_env (PlatformAPIPackageRequirement sample_package_fields)) =
       [FetchSupportedAndroidAPIPackage (Some ''30''), AndroidConfig]"
  using construction_runs_no_check
      [where ms = "\<lambda>key. key" and lg = "Logger ''test''" and lvl = None and tr = "[]"
         and e = sample_env and r = "PlatformAPIPackageRequirement sample_package_fields"]
  by (simp add: calls_def run_platform_api sample_defs)

subsection \<open>The command-line-tools requirement\<close>

text \<open>
  Claim C10. In the check of \<open>AndroidSDKToolsInstalledRequirement\<close>, every rejection of the
  probe \<open>fetchAndroidCmdLineToolsLocation\<close> gives the same result: the check is rejected with
  the unfulfilled template as it is, whatever the reason of the rejection (status 127 or
  not, \<open>null\<close> or not). Two environments that differ only in that reason give the same
  result and the same calls.
\<close>

theorem cmdline_tools_failures_collapse:
  "outcome (e\<lparr>fetchAndroidCmdLineToolsLocation := Rejected x\<rparr>)
      (AndroidSDKToolsInstalledRequirement this) =
     Return (Rejected (SfdxError (unfulfilledMessage this)))
   \<and> outcome (e\<lparr>fetchAndroidCmdLineToolsLocation := Rejected x\<rparr>)
        (AndroidSDKToolsInstalledRequirement this) =
      outcome (e\<lparr>fetchAndroidCmdLineToolsLocation := Rejected y\<rparr>)
        (AndroidSDKToolsInstalledRequirement this)
   \<and> calls (e\<lparr>fetchAndroidCmdLineToolsLocation := Rejected x\<rparr>)
        (AndroidSDKToolsInstalledRequirement this) =
      calls (e\<lparr>fetchAndroidCmdLineToolsLocation := Rejected y\<rparr>)
        (AndroidSDKToolsInstalledRequirement this)"
  by (simp add: outcome_def calls_def run_cmdline_tools)

theorem cmdline_tools_failures_collapse_witness:
  "outcome (sample_env\<lparr>fetchAndroidCmdLineToolsLocation := Rejected (Thrown (JNum 127) (JStr ''a''))\<rparr>)
      (AndroidSDKToolsInstalledRequirement sample_fields) =
     Return (Rejected (SfdxError ''missing %s''))
   \<and> outcome (sample_env\<lparr>fetchAndroidCmdLineToolsLocation := Rejected Nullish\<rparr>)
      (AndroidSDKToolsInstalledRequirement sample_fields) =
     Return (Rejected (SfdxError ''missing %s''))"
  using cmdline_tools_failures_collapse
      [where e = sample_env and x = "Thrown (JNum 127) (JStr ''a'')" and this = sample_fields
         and y = Nullish]
  by (simp add: sample_defs outcome_def run_cmdline_tools)

end
